theory Spec2Isabelle
  imports Main "HOL-Library.Sublist" "HOL-Library.Multiset"
begin

section \<open>The front-end components of the experiment dashboard\<close>

text \<open>
  The sources are view components and state helpers of a browser application:
  \<^item> \<open>TextExplorerAppBar\<close>: the bookmark popover of the text explorer;
  \<^item> \<open>AskForm\<close>: the feedback form of the home page;
  \<^item> \<open>GroupingPopover\<close>: the grouping selector with its filter input and mode toggle;
  \<^item> \<open>exceptionHandler\<close>: the conversion of a caught exception into a notification;
  \<^item> \<open>onTableResizeModeChange\<close>: the update of the table view mode.

  A component's \<open>React.useState\<close> variable is a field of a state record, and a handler
  is a function from the state before the event to the state after it. A call of a callback
  property or of an imported function is recorded in the order the source makes it.
  Strings are lists of characters, compared by \<open>===\<close> as lists.
\<close>

subsection \<open>TextExplorerAppBar\<close>

text \<open>
  The component keeps one state variable, \<open>popover\<close>, initially the empty string.
  The property \<open>onBookmarkUpdate\<close> is a callback of the parent: the model records the
  argument of each call in \<open>bookmarkUpdates\<close>, oldest first.
\<close>

record 'id TextExplorerAppBar =
  popover :: string
  bookmarkUpdates :: "'id list"

definition initialAppBar :: "'id TextExplorerAppBar" where
  "initialAppBar = \<lparr>popover = '''', bookmarkUpdates = []\<rparr>"

definition handleBookmarkClick ::
  "string \<Rightarrow> 'id TextExplorerAppBar \<Rightarrow> 'id TextExplorerAppBar" where
  "handleBookmarkClick v s = s\<lparr>popover := v\<rparr>"

definition handleClosePopover :: "'id TextExplorerAppBar \<Rightarrow> 'id TextExplorerAppBar" where
  "handleClosePopover s = s\<lparr>popover := ''''\<rparr>"

text \<open>\<open>appId\<close> is \<open>route.params.appId\<close>, read when the handler runs.\<close>

definition handleBookmarkUpdate ::
  "'id \<Rightarrow> 'id TextExplorerAppBar \<Rightarrow> 'id TextExplorerAppBar" where
  "handleBookmarkUpdate appId s =
     handleClosePopover (s\<lparr>bookmarkUpdates := bookmarkUpdates s @ [appId]\<rparr>)"

text \<open>The \<open>open\<close> properties of the \<open>BookmarkForm\<close> and of the update \<open>Dialog\<close>.\<close>

definition bookmarkFormOpen :: "'id TextExplorerAppBar \<Rightarrow> bool" where
  "bookmarkFormOpen s = (popover s = ''create'')"

definition updateDialogOpen :: "'id TextExplorerAppBar \<Rightarrow> bool" where
  "updateDialogOpen s = (popover s = ''update'')"

subsection \<open>AskForm\<close>

text \<open>
  The component keeps the text of the email field. \<open>handleSubmit\<close> is asynchronous:
  it calls \<open>onSendEmail\<close> with the current text, and its continuation runs when the
  promise settles. A rejected promise ends the handler at the \<open>await\<close>. The field
  \<open>ok\<close> of the result is a boolean.
\<close>

record AskForm =
  email :: string

record email_request =
  requestEmail :: string

record send_result =
  ok :: bool

datatype 'a settled = Rejected | Resolved 'a

definition initialAskForm :: AskForm where
  "initialAskForm = \<lparr>email = ''''\<rparr>"

text \<open>\<open>onChange\<close> of the text field: \<open>setEmail(e.target.value)\<close>.\<close>

definition askFormOnChange :: "string \<Rightarrow> AskForm \<Rightarrow> AskForm" where
  "askFormOnChange v s = s\<lparr>email := v\<rparr>"

text \<open>The argument \<open>{ email }\<close> of the call of \<open>onSendEmail\<close>.\<close>

definition handleSubmit_request :: "AskForm \<Rightarrow> email_request" where
  "handleSubmit_request s = \<lparr>requestEmail = email s\<rparr>"

text \<open>
  The part of \<open>handleSubmit\<close> after the \<open>await\<close>, on the state the component has when
  the promise settles.
\<close>

definition handleSubmit_resume :: "send_result settled \<Rightarrow> AskForm \<Rightarrow> AskForm" where
  "handleSubmit_resume r s =
     (case r of
        Rejected \<Rightarrow> s
      | Resolved data \<Rightarrow> if ok data then s\<lparr>email := ''''\<rparr> else s)"

text \<open>A submission with no event between the call and its result.\<close>

definition handleSubmit :: "(email_request \<Rightarrow> send_result settled) \<Rightarrow> AskForm \<Rightarrow> AskForm" where
  "handleSubmit onSendEmail s = handleSubmit_resume (onSendEmail (handleSubmit_request s)) s"

subsection \<open>JavaScript strings\<close>

text \<open>
  A string is the list of its code units, here the characters below 256. \<open>trim\<close>
  removes the white space and line terminators of the language at both ends; among these
  characters they are tab, line feed, vertical tab, form feed, carriage return, space and
  the no-break space.
\<close>

definition isWhiteSpace :: "char \<Rightarrow> bool" where
  "isWhiteSpace c = (of_char c \<in> {9, 10, 11, 12, 13, 32, 160 :: nat})"

definition trim :: "string \<Rightarrow> string" where
  "trim s = rev (dropWhile isWhiteSpace (rev (dropWhile isWhiteSpace s)))"

text \<open>
  \<open>s.indexOf(search)\<close>: the least position at which \<open>search\<close> occurs in \<open>s\<close>,
  and \<open>-1\<close> when it occurs nowhere. \<open>indexOfFrom\<close> scans the rest of the string,
  \<open>k\<close> being the position of its first character.
\<close>

fun indexOfFrom :: "string \<Rightarrow> string \<Rightarrow> nat \<Rightarrow> int" where
  "indexOfFrom [] search k = (if search = [] then int k else -1)"
| "indexOfFrom (c # cs) search k =
     (if prefix search (c # cs) then int k else indexOfFrom cs search (Suc k))"

definition indexOf :: "string \<Rightarrow> string \<Rightarrow> int" where
  "indexOf s search = indexOfFrom s search 0"

text \<open>
  \<open>Array.prototype.sort(compareFn)\<close> is stable: elements that compare equal keep
  their order. With a comparison that is consistent (as a difference of keys is) every
  stable sort returns the same array; the model inserts each element before the first one
  it does not exceed.
\<close>

fun insertSorted :: "('a \<Rightarrow> 'a \<Rightarrow> int) \<Rightarrow> 'a \<Rightarrow> 'a list \<Rightarrow> 'a list" where
  "insertSorted compareFn x [] = [x]"
| "insertSorted compareFn x (y # ys) =
     (if compareFn x y \<le> 0 then x # y # ys else y # insertSorted compareFn x ys)"

fun arraySort :: "('a \<Rightarrow> 'a \<Rightarrow> int) \<Rightarrow> 'a list \<Rightarrow> 'a list" where
  "arraySort compareFn [] = []"
| "arraySort compareFn (x # xs) = insertSorted compareFn x (arraySort compareFn xs)"

subsection \<open>GroupingPopover\<close>

record IGroupingSelectOption =
  "value" :: string
  group :: string
  label :: string

text \<open>
  Of \<open>groupingData\<close> the handlers and the toggle read \<open>reverseMode[groupName]\<close>,
  a boolean per group name; a name with no entry reads as \<open>undefined\<close>.
\<close>

record groupingData =
  reverseMode :: "string \<rightharpoonup> bool"

record props =
  groupName :: string
  groupingData :: "groupingData option"
  groupingSelectOptions :: "IGroupingSelectOption list"

text \<open>
  The calls of the callback properties, with the fields of the argument object:
  \<open>onSelect({groupName, list})\<close> and \<open>onGroupingModeChange({groupName, value, options})\<close>,
  where \<open>options\<close> is a list or \<open>null\<close>.
\<close>

datatype callback =
  OnSelect string "string list"
| OnGroupingModeChange string bool "IGroupingSelectOption list option"

text \<open>
  The component keeps the text of the filter input; \<open>calls\<close> records the calls of the
  callback properties, oldest first.
\<close>

record GroupingPopover =
  inputValue :: string
  calls :: "callback list"

definition initialGroupingPopover :: GroupingPopover where
  "initialGroupingPopover = \<lparr>inputValue = '''', calls = []\<rparr>"

text \<open>
  The event of \<open>onChange\<close> is of any type. \<open>e?.code\<close> is \<open>undefined\<close> when there is
  no event or the event has no string \<open>code\<close> (a mouse click); \<open>keyCode\<close> is that value.
\<close>

record event =
  code :: "string option"

definition keyCode :: "event option \<Rightarrow> string option" where
  "keyCode e = (case e of None \<Rightarrow> None | Some ev \<Rightarrow> code ev)"

text \<open>A selected value is an option object or a bare string (\<open>typeof item === 'string'\<close>).\<close>

datatype item = StringItem string | OptionItem IGroupingSelectOption

fun itemValue :: "item \<Rightarrow> string" where
  "itemValue (StringItem t) = t"
| "itemValue (OptionItem opt) = value opt"

definition handleSelect :: "props \<Rightarrow> item list \<Rightarrow> GroupingPopover \<Rightarrow> GroupingPopover" where
  "handleSelect p vals s = s\<lparr>calls := calls s @ [OnSelect (groupName p) (map itemValue vals)]\<rparr>"

definition onChange ::
  "props \<Rightarrow> event option \<Rightarrow> item list \<Rightarrow> GroupingPopover \<Rightarrow> GroupingPopover" where
  "onChange p e vals s =
     (if keyCode e \<noteq> Some ''Backspace'' then (handleSelect p vals s)\<lparr>inputValue := ''''\<rparr>
      else if length (inputValue s) = 0 then handleSelect p vals s
      else s)"

text \<open>\<open>onChange\<close> of the text input: \<open>setInputValue(e.target?.value)\<close>.\<close>

definition inputOnChange :: "string \<Rightarrow> GroupingPopover \<Rightarrow> GroupingPopover" where
  "inputOnChange v s = s\<lparr>inputValue := v\<rparr>"

text \<open>\<open>groupingData?.reverseMode[groupName]\<close> as a condition.\<close>

definition reverseModeOn :: "props \<Rightarrow> bool" where
  "reverseModeOn p =
     (case groupingData p of
        None \<Rightarrow> False
      | Some gd \<Rightarrow> reverseMode gd (groupName p) = Some True)"

text \<open>The value handed to the handler by the toggle is a string or a number.\<close>

datatype toggleValue = StringValue string | NumberValue int

definition handleGroupingMode :: "props \<Rightarrow> toggleValue \<Rightarrow> GroupingPopover \<Rightarrow> GroupingPopover" where
  "handleGroupingMode p val s =
     s\<lparr>calls := calls s @
        [OnGroupingModeChange (groupName p) (val = StringValue ''Reverse'')
           (if reverseModeOn p then Some (groupingSelectOptions p) else None)]\<rparr>"

text \<open>The \<open>value\<close> property of the \<open>ToggleButton\<close>.\<close>

definition toggleButtonValue :: "props \<Rightarrow> string" where
  "toggleButtonValue p = (if reverseModeOn p then ''Reverse'' else ''Group'')"

text \<open>The memoised \<open>options\<close> handed to the \<open>Autocomplete\<close>.\<close>

definition options :: "props \<Rightarrow> GroupingPopover \<Rightarrow> IGroupingSelectOption list" where
  "options p s =
     (if trim (inputValue s) \<noteq> '''' then
        arraySort
          (\<lambda>a b. indexOf (label a) (inputValue s) - indexOf (label b) (inputValue s))
          (filter (\<lambda>item. indexOf (label item) (inputValue s) \<noteq> -1) (groupingSelectOptions p))
      else groupingSelectOptions p)"

text \<open>
  Modelled from the spec: the handler the parent passes as \<open>onGroupingModeChange\<close>, which
  is not among the sources ("toggling grouping mode flips between "Group" and "Reverse"
  and swaps the option set accordingly"). It stores \<open>value\<close> as the reverse mode of the
  group, and the parent renders the component again with the grouping data so updated
  (grouping data that were absent then hold this one entry). The spec does not say what
  becomes of \<open>options\<close>; the option list is kept.
\<close>

definition onGroupingModeChange ::
  "string \<Rightarrow> bool \<Rightarrow> IGroupingSelectOption list option \<Rightarrow> props \<Rightarrow> props" where
  "onGroupingModeChange g v opts p =
     p\<lparr>groupingData :=
         Some (case groupingData p of
                 None \<Rightarrow> \<lparr>reverseMode = [g \<mapsto> v]\<rparr>
               | Some gd \<Rightarrow> gd\<lparr>reverseMode := (reverseMode gd)(g \<mapsto> v)\<rparr>)\<rparr>"

subsection \<open>JavaScript values\<close>





subsection \<open>exceptionHandler\<close>



text \<open>
  Of \<open>RequestStatusEnum\<close> the source names the member \<open>BadRequest\<close>; the enumeration
  is declared in another file, and \<open>OtherRequestStatus\<close> stands for its other members.
\<close>

datatype RequestStatusEnum = BadRequest | OtherRequestStatus nat







subsection \<open>onTableResizeModeChange\<close>

text \<open>
  The state of a model is an object with an optional \<open>config\<close>, the configuration an
  object with an optional \<open>table\<close>, the table configuration an object with a
  \<open>resizeMode\<close>. Each is a record that may be extended by any further fields, which an
  object spread copies.
\<close>

record tableConfig =
  resizeMode :: string

record 't appConfig =
  table :: "'t option"

record 'c modelState =
  config :: "'c option"

text \<open>
  What the function reads and writes: the state of \<open>params.model\<close> (\<open>None\<close> when
  \<open>getState()\<close> returns no object), the browser's local storage and the analytics events
  sent so far, oldest first.
\<close>

record 's world =
  getState :: "'s option"
  localStorage :: "string \<rightharpoonup> string"
  trackedEvents :: "string list"

record params =
  mode :: string
  page :: string

text \<open>
  Modelled from the spec: the method \<open>setState\<close> of the model, whose implementation is
  not among the sources ("simple getter/setter semantics"). It replaces the fields named
  in its argument, here \<open>config\<close>, and keeps the others.
\<close>

definition setStateConfig ::
  "'c \<Rightarrow> ('c, 'a) modelState_scheme world \<Rightarrow> ('c, 'a) modelState_scheme world" where
  "setStateConfig c w = w\<lparr>getState := map_option (\<lambda>st. st\<lparr>config := Some c\<rparr>) (getState w)\<rparr>"

text \<open>
  Modelled from the spec: \<open>setItem\<close> of the storage utility, not among the sources
  ("persists UI table configuration under a per-page key"). It stores the value under
  the key.
\<close>

definition setItem :: "string \<Rightarrow> string \<Rightarrow> 's world \<Rightarrow> 's world" where
  "setItem key v w = w\<lparr>localStorage := (localStorage w)(key \<mapsto> v)\<rparr>"

text \<open>
  Modelled from the spec: \<open>analytics.trackEvent\<close>, not among the sources ("fire-and-forget
  ... events with free-text labels"). It sends one event with the given label.
\<close>

definition trackEvent :: "string \<Rightarrow> 's world \<Rightarrow> 's world" where
  "trackEvent l w = w\<lparr>trackedEvents := trackedEvents w @ [l]\<rparr>"

text \<open>\<open>params.model.getState()?.config\<close> and \<open>configData?.table\<close>.\<close>

definition configData :: "('c, 'a) modelState_scheme world \<Rightarrow> 'c option" where
  "configData w = (case getState w of None \<Rightarrow> None | Some st \<Rightarrow> config st)"

definition configTable ::
  "(('t, 'b) appConfig_scheme, 'a) modelState_scheme world \<Rightarrow> 't option" where
  "configTable w = (case configData w of None \<Rightarrow> None | Some cd \<Rightarrow> table cd)"

text \<open>
  \<open>encode\<close> is the encoder utility, not among the sources; it is a parameter. \<open>page\<close>
  and \<open>mode\<close> are strings, which a template literal interpolates as they are.
\<close>

definition onTableResizeModeChange ::
  "('z tableConfig_scheme \<Rightarrow> string) \<Rightarrow> params
   \<Rightarrow> (('z tableConfig_scheme, 'b) appConfig_scheme, 'a) modelState_scheme world
   \<Rightarrow> (('z tableConfig_scheme, 'b) appConfig_scheme, 'a) modelState_scheme world" where
  "onTableResizeModeChange encode ps w =
     trackEvent
       (''['' @ page ps @ ''Explorer][Table] Set table view mode to '' @ [CHR 0x22] @ mode ps
        @ [CHR 0x22])
       (case configData w of
          None \<Rightarrow> w
        | Some cd \<Rightarrow>
            (case table cd of
               None \<Rightarrow> w
             | Some t \<Rightarrow>
                 let table' = t\<lparr>resizeMode := mode ps\<rparr>;
                     config' = cd\<lparr>table := Some table'\<rparr>
                 in setItem (page ps @ ''Table'') (encode table') (setStateConfig config' w)))"

subsection \<open>Example inputs\<close>

definition exampleOptions :: "IGroupingSelectOption list" where
  "exampleOptions =
     [\<lparr>value = ''v1'', group = ''g'', label = ''ba''\<rparr>,
      \<lparr>value = ''v2'', group = ''g'', label = ''ab''\<rparr>,
      \<lparr>value = ''v3'', group = ''g'', label = ''cc''\<rparr>,
      \<lparr>value = ''v4'', group = ''g'', label = ''ca''\<rparr>]"

text \<open>
  A model state with further fields at each level (written as one string each), and a
  state with no \<open>config\<close>.
\<close>

definition exampleWorld ::
  "((string tableConfig_scheme, string) appConfig_scheme, string) modelState_scheme world" where
  "exampleWorld =
     \<lparr>getState =
        Some \<lparr>config =
                Some \<lparr>table = Some \<lparr>resizeMode = ''Resizable'', \<dots> = ''rowHeight: 26''\<rparr>,
                      \<dots> = ''select: {}''\<rparr>,
              \<dots> = ''requestStatus: 2''\<rparr>,
      localStorage = [''metricsTable'' \<mapsto> ''old''],
      trackedEvents = [''first'']\<rparr>"

definition exampleWorldNoConfig ::
  "((string tableConfig_scheme, string) appConfig_scheme, string) modelState_scheme world" where
  "exampleWorldNoConfig =
     \<lparr>getState = Some \<lparr>config = None, \<dots> = ''requestStatus: 2''\<rparr>,
      localStorage = [''metricsTable'' \<mapsto> ''old''],
      trackedEvents = [''first'']\<rparr>"

definition exampleEncode :: "string tableConfig_scheme \<Rightarrow> string" where
  "exampleEncode t = resizeMode t @ '', '' @ tableConfig.more t"







text \<open>The properties of a popover for the group "color", in mode Group and in mode Reverse.\<close>

definition examplePropsGroup :: props where
  "examplePropsGroup =
     \<lparr>groupName = ''color'',
      groupingData = Some \<lparr>reverseMode = [''color'' \<mapsto> False]\<rparr>,
      groupingSelectOptions = exampleOptions\<rparr>"

definition examplePropsReverse :: props where
  "examplePropsReverse =
     \<lparr>groupName = ''color'',
      groupingData = Some \<lparr>reverseMode = [''color'' \<mapsto> True]\<rparr>,
      groupingSelectOptions = exampleOptions\<rparr>"

section \<open>Verified properties\<close>

subsection \<open>TextExplorerAppBar: the bookmark dialogs\<close>

lemma popover_handleBookmarkUpdate: "popover (handleBookmarkUpdate appId s) = ''''"
  by (simp add: handleBookmarkUpdate_def handleClosePopover_def)

text \<open>
  Claim C6. Selecting "create" opens the bookmark-creation form and selecting "update"
  opens the update-confirmation dialog, and only that one. The create form is open exactly
  when the popover state is the string "create", the update dialog exactly when it is
  "update". Closing (the \<open>onClose\<close> of either, the Cancel button) sets the state to the
  empty string, after which neither is open; no handler calls \<open>onBookmarkUpdate\<close>
  except Save.
\<close>

theorem C6_bookmark_dialogs:
  "bookmarkFormOpen (handleBookmarkClick ''create'' s)
   \<and> \<not> updateDialogOpen (handleBookmarkClick ''create'' s)
   \<and> updateDialogOpen (handleBookmarkClick ''update'' s)
   \<and> \<not> bookmarkFormOpen (handleBookmarkClick ''update'' s)
   \<and> bookmarkFormOpen s = (popover s = ''create'')
   \<and> updateDialogOpen s = (popover s = ''update'')
   \<and> popover (handleClosePopover s) = ''''
   \<and> \<not> bookmarkFormOpen (handleClosePopover s)
   \<and> \<not> updateDialogOpen (handleClosePopover s)
   \<and> bookmarkUpdates (handleBookmarkClick v s) = bookmarkUpdates s
   \<and> bookmarkUpdates (handleClosePopover s) = bookmarkUpdates s
   \<and> \<not> bookmarkFormOpen (initialAppBar :: 'id TextExplorerAppBar)
   \<and> \<not> updateDialogOpen (initialAppBar :: 'id TextExplorerAppBar)"
  by (simp add: bookmarkFormOpen_def updateDialogOpen_def handleBookmarkClick_def
      handleClosePopover_def initialAppBar_def)

subsection \<open>AskForm: clearing the field\<close>

text \<open>
  Claim C5. After a submission the email field is set to the empty string when the
  result has \<open>ok = true\<close>; on a result that is not ok the text is left as it is. So a
  field that held some text is empty afterwards if and only if the result is ok. A
  submission that fails with no result leaves the state as it is.
\<close>

theorem C5_email_cleared_iff_ok:
  "email (handleSubmit_resume (Resolved data) s) = (if ok data then '''' else email s)
   \<and> (email s \<noteq> '''' \<longrightarrow> (email (handleSubmit_resume (Resolved data) s) = '''') = ok data)
   \<and> email (handleSubmit (\<lambda>req. Resolved data) s) = (if ok data then '''' else email s)
   \<and> handleSubmit_resume Rejected s = s"
  by (simp add: handleSubmit_resume_def handleSubmit_def)

theorem C5_email_cleared_iff_ok_witness:
  "email \<lparr>email = ''a@b.c''\<rparr> \<noteq> ''''
   \<and> email (handleSubmit_resume (Resolved \<lparr>ok = True\<rparr>) \<lparr>email = ''a@b.c''\<rparr>) = ''''
   \<and> email (handleSubmit_resume (Resolved \<lparr>ok = False\<rparr>) \<lparr>email = ''a@b.c''\<rparr>) = ''a@b.c''"
  using C5_email_cleared_iff_ok [of "\<lparr>ok = True\<rparr>" "\<lparr>email = ''a@b.c''\<rparr>"]
    C5_email_cleared_iff_ok [of "\<lparr>ok = False\<rparr>" "\<lparr>email = ''a@b.c''\<rparr>"]
  by simp

subsection \<open>GroupingPopover: the filtered options\<close>

text \<open>\<open>indexOf\<close> is \<open>-1\<close> exactly when the text searched for occurs nowhere.\<close>

lemma indexOfFrom_absent: "(indexOfFrom s search k = -1) = (\<not> sublist search s)"
  by (induction s arbitrary: k) (auto simp: sublist_Cons_right)

lemma indexOf_present: "(indexOf s search \<noteq> -1) = sublist search s"
  by (simp add: indexOf_def indexOfFrom_absent)

text \<open>Otherwise it is the position of the first occurrence.\<close>

lemma indexOfFrom_found:
  "sublist search s \<Longrightarrow>
   \<exists>j. indexOfFrom s search k = int (k + j) \<and> prefix search (drop j s)
       \<and> (\<forall>i<j. \<not> prefix search (drop i s))"
proof (induction s arbitrary: k)
  case Nil
  then show ?case by simp
next
  case (Cons c cs)
  show ?case
  proof (cases "prefix search (c # cs)")
    case True
    then show ?thesis by (intro exI[of _ 0]) simp
  next
    case False
    with Cons.prems have "sublist search cs"
      by (simp add: sublist_Cons_right)
    from Cons.IH[OF this, of "Suc k"] obtain j where
      j: "indexOfFrom cs search (Suc k) = int (Suc k + j)" "prefix search (drop j cs)"
        "\<forall>i<j. \<not> prefix search (drop i cs)"
      by blast
    have "\<forall>i<Suc j. \<not> prefix search (drop i (c # cs))"
      using False j(3) by (auto simp: less_Suc_eq_0_disj)
    with j False show ?thesis
      by (intro exI[of _ "Suc j"]) simp
  qed
qed

lemma indexOf_first_occurrence:
  assumes "sublist search s"
  shows "\<exists>j. indexOf s search = int j \<and> prefix search (drop j s)
           \<and> (\<forall>i<j. \<not> prefix search (drop i s))"
  using indexOfFrom_found[OF assms, of 0] by (simp add: indexOf_def)

text \<open>Sorting with a difference of integer keys is the stable sort by that key.\<close>

lemma insertSorted_key: "insertSorted (\<lambda>a b. f a - f b) x ys = insort_key f x ys"
  for f :: "'a \<Rightarrow> int"
  by (induction ys) auto

lemma arraySort_key: "arraySort (\<lambda>a b. f a - f b) xs = sort_key f xs"
  for f :: "'a \<Rightarrow> int"
  by (induction xs) (auto simp: insertSorted_key)

lemma options_filtering:
  "trim (inputValue s) \<noteq> '''' \<Longrightarrow>
   options p s = sort_key (\<lambda>item. indexOf (label item) (inputValue s))
     (filter (\<lambda>item. sublist (inputValue s) (label item)) (groupingSelectOptions p))"
  by (simp add: options_def arraySort_key indexOf_present)

text \<open>
  Claim C1. When the filter input is not empty after trimming, the displayed options are
  exactly the options whose label contains the input (the text as typed, untrimmed) as
  a substring, each as often as it is in the option list; they are in ascending order of
  the position of the first occurrence of the input in the label; and the options whose
  labels match at the same position \<open>k\<close> are in the order they have in the option list.
  When the trimmed input is empty, the displayed options are the option list itself.
\<close>

theorem C1_options_filtered_sorted:
  "(trim (inputValue s) \<noteq> '''' \<longrightarrow>
      mset (options p s)
        = filter_mset (\<lambda>item. sublist (inputValue s) (label item))
            (mset (groupingSelectOptions p))
      \<and> sorted (map (\<lambda>item. indexOf (label item) (inputValue s)) (options p s))
      \<and> (\<forall>k. filter (\<lambda>item. indexOf (label item) (inputValue s) = k) (options p s)
             = filter (\<lambda>item. indexOf (label item) (inputValue s) = k)
                 (filter (\<lambda>item. sublist (inputValue s) (label item))
                    (groupingSelectOptions p)))
      \<and> (\<forall>item \<in> set (options p s). \<exists>j.
             indexOf (label item) (inputValue s) = int j
             \<and> prefix (inputValue s) (drop j (label item))
             \<and> (\<forall>i<j. \<not> prefix (inputValue s) (drop i (label item)))))
   \<and> (trim (inputValue s) = '''' \<longrightarrow> options p s = groupingSelectOptions p)"
proof (intro conjI impI allI ballI)
  assume "trim (inputValue s) = ''''"
  then show "options p s = groupingSelectOptions p"
    by (simp add: options_def)
next
  assume t: "trim (inputValue s) \<noteq> ''''"
  show "mset (options p s)
        = filter_mset (\<lambda>item. sublist (inputValue s) (label item))
            (mset (groupingSelectOptions p))"
    by (simp add: options_filtering[OF t])
next
  assume t: "trim (inputValue s) \<noteq> ''''"
  show "sorted (map (\<lambda>item. indexOf (label item) (inputValue s)) (options p s))"
    by (simp add: options_filtering[OF t])
next
  fix k
  assume t: "trim (inputValue s) \<noteq> ''''"
  show "filter (\<lambda>item. indexOf (label item) (inputValue s) = k) (options p s)
          = filter (\<lambda>item. indexOf (label item) (inputValue s) = k)
              (filter (\<lambda>item. sublist (inputValue s) (label item))
                 (groupingSelectOptions p))"
    unfolding options_filtering[OF t] by (rule sort_key_stable)
next
  fix item
  assume t: "trim (inputValue s) \<noteq> ''''" and "item \<in> set (options p s)"
  then have "sublist (inputValue s) (label item)"
    by (simp add: options_filtering[OF t])
  then show "\<exists>j. indexOf (label item) (inputValue s) = int j
             \<and> prefix (inputValue s) (drop j (label item))
             \<and> (\<forall>i<j. \<not> prefix (inputValue s) (drop i (label item)))"
    by (rule indexOf_first_occurrence)
qed

text \<open>
  With the labels "ba", "ab", "cc", "ca" and the input "a": "ab" matches at 0 and comes
  first, "ba" and "ca" match at 1 and keep their order, "cc" is dropped. With an input of
  two spaces the list is the option list.
\<close>

theorem C1_options_filtered_sorted_witness:
  "trim (inputValue \<lparr>inputValue = ''a'', calls = []\<rparr>) \<noteq> ''''
   \<and> options \<lparr>groupName = ''color'', groupingData = None,
               groupingSelectOptions = exampleOptions\<rparr>
        \<lparr>inputValue = ''a'', calls = []\<rparr>
      = [\<lparr>value = ''v2'', group = ''g'', label = ''ab''\<rparr>,
         \<lparr>value = ''v1'', group = ''g'', label = ''ba''\<rparr>,
         \<lparr>value = ''v4'', group = ''g'', label = ''ca''\<rparr>]
   \<and> sorted (map (\<lambda>item. indexOf (label item) ''a'')
        (options \<lparr>groupName = ''color'', groupingData = None,
                  groupingSelectOptions = exampleOptions\<rparr>
           \<lparr>inputValue = ''a'', calls = []\<rparr>))
   \<and> trim (inputValue \<lparr>inputValue = ''  '', calls = []\<rparr>) = ''''
   \<and> options \<lparr>groupName = ''color'', groupingData = None,
               groupingSelectOptions = exampleOptions\<rparr>
        \<lparr>inputValue = ''  '', calls = []\<rparr> = exampleOptions"
proof -
  let ?p = "\<lparr>groupName = ''color'', groupingData = None,
             groupingSelectOptions = exampleOptions\<rparr>"
  have t: "trim (inputValue \<lparr>inputValue = ''a'', calls = []\<rparr>) \<noteq> ''''"
    by (simp add: trim_def isWhiteSpace_def)
  have e: "trim (inputValue \<lparr>inputValue = ''  '', calls = []\<rparr>) = ''''"
    by (simp add: trim_def isWhiteSpace_def)
  have v: "options ?p \<lparr>inputValue = ''a'', calls = []\<rparr>
      = [\<lparr>value = ''v2'', group = ''g'', label = ''ab''\<rparr>,
         \<lparr>value = ''v1'', group = ''g'', label = ''ba''\<rparr>,
         \<lparr>value = ''v4'', group = ''g'', label = ''ca''\<rparr>]"
    by (simp add: options_def exampleOptions_def trim_def isWhiteSpace_def indexOf_def)
  from C1_options_filtered_sorted [of "\<lparr>inputValue = ''a'', calls = []\<rparr>" ?p] t
  have s: "sorted (map (\<lambda>item. indexOf (label item) ''a'')
             (options ?p \<lparr>inputValue = ''a'', calls = []\<rparr>))"
    by simp
  from C1_options_filtered_sorted [of "\<lparr>inputValue = ''  '', calls = []\<rparr>" ?p] e
  have u: "options ?p \<lparr>inputValue = ''  '', calls = []\<rparr> = exampleOptions"
    by simp
  from t e v s u show ?thesis by blast
qed

subsection \<open>GroupingPopover: the mode toggle and the selection\<close>

text \<open>What the toggle shows once the parent has handled a change of mode to \<open>v\<close>.\<close>

lemma toggleButtonValue_onGroupingModeChange:
  "toggleButtonValue (onGroupingModeChange (groupName p) v opts p)
     = (if v then ''Reverse'' else ''Group'')"
  by (simp add: toggleButtonValue_def reverseModeOn_def onGroupingModeChange_def
      split: option.splits)

text \<open>
  Claim C4. The toggle shows "Reverse" exactly when \<open>reverseMode[groupName]\<close> is true,
  and "Group" otherwise. Selecting a toggle value calls \<open>onGroupingModeChange\<close> once, with
  the group name, with \<open>value\<close> true exactly when the selected value is the string
  "Reverse", and with \<open>options\<close> the full option list when the current mode is reverse and
  \<open>null\<close> otherwise; the filter input is not touched. Once the parent has handled that
  call, the toggle shows the value selected: selecting "Reverse" while it shows "Group"
  makes it show "Reverse", and selecting "Group" while it shows "Reverse" makes it show
  "Group".
\<close>

theorem C4_grouping_mode_toggle:
  "(toggleButtonValue p = ''Reverse'') = reverseModeOn p
   \<and> (toggleButtonValue p = ''Group'') = (\<not> reverseModeOn p)
   \<and> reverseModeOn p
       = (\<exists>gd. groupingData p = Some gd \<and> reverseMode gd (groupName p) = Some True)
   \<and> calls (handleGroupingMode p val s) = calls s @
        [OnGroupingModeChange (groupName p) (val = StringValue ''Reverse'')
           (if reverseModeOn p then Some (groupingSelectOptions p) else None)]
   \<and> inputValue (handleGroupingMode p val s) = inputValue s
   \<and> (\<exists>g v opts.
         calls (handleGroupingMode p val s) = calls s @ [OnGroupingModeChange g v opts]
         \<and> toggleButtonValue (onGroupingModeChange g v opts p)
             = (if val = StringValue ''Reverse'' then ''Reverse'' else ''Group''))
   \<and> (toggleButtonValue p = ''Group'' \<longrightarrow>
        (\<exists>g v opts.
           calls (handleGroupingMode p (StringValue ''Reverse'') s)
             = calls s @ [OnGroupingModeChange g v opts]
           \<and> toggleButtonValue (onGroupingModeChange g v opts p) = ''Reverse''))
   \<and> (toggleButtonValue p = ''Reverse'' \<longrightarrow>
        (\<exists>g v opts.
           calls (handleGroupingMode p (StringValue ''Group'') s)
             = calls s @ [OnGroupingModeChange g v opts]
           \<and> toggleButtonValue (onGroupingModeChange g v opts p) = ''Group''))"
proof -
  have shown: "(toggleButtonValue p = ''Reverse'') = reverseModeOn p"
    "(toggleButtonValue p = ''Group'') = (\<not> reverseModeOn p)"
    by (simp_all add: toggleButtonValue_def)
  have mode: "reverseModeOn p
       = (\<exists>gd. groupingData p = Some gd \<and> reverseMode gd (groupName p) = Some True)"
    by (auto simp: reverseModeOn_def split: option.splits)
  have call: "calls (handleGroupingMode p x s) = calls s @
        [OnGroupingModeChange (groupName p) (x = StringValue ''Reverse'')
           (if reverseModeOn p then Some (groupingSelectOptions p) else None)]" for x
    by (simp add: handleGroupingMode_def)
  have input: "inputValue (handleGroupingMode p val s) = inputValue s"
    by (simp add: handleGroupingMode_def)
  have after: "\<exists>g v opts.
         calls (handleGroupingMode p x s) = calls s @ [OnGroupingModeChange g v opts]
         \<and> toggleButtonValue (onGroupingModeChange g v opts p)
             = (if x = StringValue ''Reverse'' then ''Reverse'' else ''Group'')" for x
    using call [of x] toggleButtonValue_onGroupingModeChange by blast
  from after [of "StringValue ''Reverse''"] have toReverse:
    "\<exists>g v opts.
       calls (handleGroupingMode p (StringValue ''Reverse'') s)
         = calls s @ [OnGroupingModeChange g v opts]
       \<and> toggleButtonValue (onGroupingModeChange g v opts p) = ''Reverse''"
    by simp
  from after [of "StringValue ''Group''"] have toGroup:
    "\<exists>g v opts.
       calls (handleGroupingMode p (StringValue ''Group'') s)
         = calls s @ [OnGroupingModeChange g v opts]
       \<and> toggleButtonValue (onGroupingModeChange g v opts p) = ''Group''"
    by simp
  from shown mode call [of val] input after [of val] toReverse toGroup
  show ?thesis by blast
qed

text \<open>
  With the group "color" in mode Group the toggle shows "Group"; selecting "Reverse"
  calls the parent with \<open>value = true\<close> and no options, after which it shows "Reverse";
  selecting "Group" then calls it with \<open>value = false\<close> and the option list, after which
  it shows "Group" again.
\<close>

theorem C4_grouping_mode_toggle_witness:
  "toggleButtonValue examplePropsGroup = ''Group''
   \<and> calls (handleGroupingMode examplePropsGroup (StringValue ''Reverse'')
        initialGroupingPopover)
      = [OnGroupingModeChange ''color'' True None]
   \<and> toggleButtonValue (onGroupingModeChange ''color'' True None examplePropsGroup)
      = ''Reverse''
   \<and> toggleButtonValue examplePropsReverse = ''Reverse''
   \<and> calls (handleGroupingMode examplePropsReverse (StringValue ''Group'')
        initialGroupingPopover)
      = [OnGroupingModeChange ''color'' False (Some exampleOptions)]
   \<and> toggleButtonValue
        (onGroupingModeChange ''color'' False (Some exampleOptions) examplePropsReverse)
      = ''Group''"
proof -
  have g: "toggleButtonValue examplePropsGroup = ''Group''"
    by (simp add: toggleButtonValue_def reverseModeOn_def examplePropsGroup_def)
  have r: "toggleButtonValue examplePropsReverse = ''Reverse''"
    by (simp add: toggleButtonValue_def reverseModeOn_def examplePropsReverse_def)
  have ng: "\<not> reverseModeOn examplePropsGroup" and nr: "reverseModeOn examplePropsReverse"
    by (simp_all add: reverseModeOn_def examplePropsGroup_def examplePropsReverse_def)
  note tg = C4_grouping_mode_toggle
    [of examplePropsGroup "StringValue ''Reverse''" initialGroupingPopover]
  note tr = C4_grouping_mode_toggle
    [of examplePropsReverse "StringValue ''Group''" initialGroupingPopover]
  have cg: "calls (handleGroupingMode examplePropsGroup (StringValue ''Reverse'')
              initialGroupingPopover)
            = [OnGroupingModeChange ''color'' True None]"
    using tg ng by (simp add: initialGroupingPopover_def examplePropsGroup_def)
  have cr: "calls (handleGroupingMode examplePropsReverse (StringValue ''Group'')
              initialGroupingPopover)
            = [OnGroupingModeChange ''color'' False (Some exampleOptions)]"
    using tr nr by (simp add: initialGroupingPopover_def examplePropsReverse_def)
  have ag: "toggleButtonValue (onGroupingModeChange ''color'' True None examplePropsGroup)
            = ''Reverse''"
    using tg g cg by auto
  have ar: "toggleButtonValue
              (onGroupingModeChange ''color'' False (Some exampleOptions) examplePropsReverse)
            = ''Group''"
    using tr r cr by auto
  from g r cg cr ag ar show ?thesis by blast
qed

text \<open>
  Claim C10. When the key of the change event is Backspace and the filter input is not
  empty, \<open>onChange\<close> does nothing: \<open>onSelect\<close> is not called and the input stays. For
  every other key (and for an event with no key) \<open>onSelect\<close> is called once, with the
  group name and the values of the new selection, and the filter input becomes the empty
  string.
\<close>

theorem C10_backspace_keeps_selection:
  "(keyCode e = Some ''Backspace'' \<and> inputValue s \<noteq> '''' \<longrightarrow> onChange p e vals s = s)
   \<and> (keyCode e \<noteq> Some ''Backspace'' \<longrightarrow>
        calls (onChange p e vals s) = calls s @ [OnSelect (groupName p) (map itemValue vals)]
        \<and> inputValue (onChange p e vals s) = '''')"
  by (simp add: onChange_def handleSelect_def)

theorem C10_backspace_keeps_selection_witness:
  "keyCode (Some \<lparr>code = Some ''Backspace''\<rparr>) = Some ''Backspace''
   \<and> inputValue \<lparr>inputValue = ''ab'', calls = []\<rparr> \<noteq> ''''
   \<and> onChange \<lparr>groupName = ''color'', groupingData = None,
                groupingSelectOptions = exampleOptions\<rparr>
        (Some \<lparr>code = Some ''Backspace''\<rparr>) [StringItem ''v1'']
        \<lparr>inputValue = ''ab'', calls = []\<rparr>
      = \<lparr>inputValue = ''ab'', calls = []\<rparr>
   \<and> keyCode (Some \<lparr>code = Some ''Enter''\<rparr>) \<noteq> Some ''Backspace''
   \<and> onChange \<lparr>groupName = ''color'', groupingData = None,
                groupingSelectOptions = exampleOptions\<rparr>
        (Some \<lparr>code = Some ''Enter''\<rparr>)
        [StringItem ''v1'', OptionItem \<lparr>value = ''v2'', group = ''g'', label = ''ab''\<rparr>]
        \<lparr>inputValue = ''ab'', calls = []\<rparr>
      = \<lparr>inputValue = '''', calls = [OnSelect ''color'' [''v1'', ''v2'']]\<rparr>"
  using
    C10_backspace_keeps_selection [of "Some \<lparr>code = Some ''Backspace''\<rparr>"
      "\<lparr>inputValue = ''ab'', calls = []\<rparr>"
      "\<lparr>groupName = ''color'', groupingData = None, groupingSelectOptions = exampleOptions\<rparr>"
      "[StringItem ''v1'']"]
    C10_backspace_keeps_selection [of "Some \<lparr>code = Some ''Enter''\<rparr>"
      "\<lparr>inputValue = ''ab'', calls = []\<rparr>"
      "\<lparr>groupName = ''color'', groupingData = None, groupingSelectOptions = exampleOptions\<rparr>"
      "[StringItem ''v1'', OptionItem \<lparr>value = ''v2'', group = ''g'', label = ''ab''\<rparr>]"]
  by (simp add: keyCode_def onChange_def handleSelect_def)

subsection \<open>exceptionHandler: the notification\<close>






subsection \<open>onTableResizeModeChange\<close>

text \<open>
  Claim C7. When the model state has a \<open>config.table\<close>, the call stores in local storage,
  under the key made of the page name followed by "Table", the encoding of the new table
  configuration, which is the old one with \<open>resizeMode\<close> replaced by the requested mode.
  No other key of the storage changes.
\<close>

theorem C7_table_persisted:
  "configTable w = Some t \<Longrightarrow>
   localStorage (onTableResizeModeChange encode ps w)
     = (localStorage w)(page ps @ ''Table'' \<mapsto> encode (t\<lparr>resizeMode := mode ps\<rparr>))"
  by (auto simp: onTableResizeModeChange_def configTable_def trackEvent_def setItem_def
      setStateConfig_def Let_def split: option.splits)

theorem C7_table_persisted_witness:
  "configTable exampleWorld = Some \<lparr>resizeMode = ''Resizable'', \<dots> = ''rowHeight: 26''\<rparr>
   \<and> localStorage
        (onTableResizeModeChange exampleEncode \<lparr>mode = ''Hide'', page = ''runs''\<rparr> exampleWorld)
      = [''metricsTable'' \<mapsto> ''old'', ''runsTable'' \<mapsto> ''Hide, rowHeight: 26'']"
proof -
  have t: "configTable exampleWorld
             = Some \<lparr>resizeMode = ''Resizable'', \<dots> = ''rowHeight: 26''\<rparr>"
    by (simp add: configTable_def configData_def exampleWorld_def)
  from C7_table_persisted [OF t, of exampleEncode "\<lparr>mode = ''Hide'', page = ''runs''\<rparr>"]
  have "localStorage
          (onTableResizeModeChange exampleEncode \<lparr>mode = ''Hide'', page = ''runs''\<rparr>
             exampleWorld)
        = [''metricsTable'' \<mapsto> ''old'', ''runsTable'' \<mapsto> ''Hide, rowHeight: 26'']"
    by (simp add: exampleEncode_def exampleWorld_def)
  with t show ?thesis by simp
qed

text \<open>
  Claim C8. When the model state has a \<open>config.table\<close>, the state after the call is the
  state before it with \<open>config.table.resizeMode\<close> replaced: every other field of
  \<open>config\<close> and every other field of \<open>config.table\<close> is as before (and so is every
  other field of the state).
\<close>

theorem C8_only_resizeMode_changes:
  assumes "getState w = Some st" and "config st = Some cd" and "table cd = Some t"
  shows "getState (onTableResizeModeChange encode ps w)
           = Some (st\<lparr>config := Some (cd\<lparr>table := Some (t\<lparr>resizeMode := mode ps\<rparr>)\<rparr>)\<rparr>)
         \<and> (\<exists>st' cd' t'. getState (onTableResizeModeChange encode ps w) = Some st'
               \<and> config st' = Some cd' \<and> table cd' = Some t'
               \<and> modelState.more st' = modelState.more st
               \<and> appConfig.more cd' = appConfig.more cd
               \<and> tableConfig.more t' = tableConfig.more t
               \<and> resizeMode t' = mode ps)"
  using assms
  by (simp add: onTableResizeModeChange_def configData_def trackEvent_def setItem_def
      setStateConfig_def Let_def)

theorem C8_only_resizeMode_changes_witness:
  "getState exampleWorld
     = Some \<lparr>config =
               Some \<lparr>table = Some \<lparr>resizeMode = ''Resizable'', \<dots> = ''rowHeight: 26''\<rparr>,
                     \<dots> = ''select: {}''\<rparr>,
             \<dots> = ''requestStatus: 2''\<rparr>
   \<and> getState
        (onTableResizeModeChange exampleEncode \<lparr>mode = ''Hide'', page = ''runs''\<rparr> exampleWorld)
      = Some \<lparr>config =
                Some \<lparr>table = Some \<lparr>resizeMode = ''Hide'', \<dots> = ''rowHeight: 26''\<rparr>,
                      \<dots> = ''select: {}''\<rparr>,
              \<dots> = ''requestStatus: 2''\<rparr>"
proof -
  let ?t = "\<lparr>resizeMode = ''Resizable'', \<dots> = ''rowHeight: 26''\<rparr>"
  let ?cd = "\<lparr>table = Some ?t, \<dots> = ''select: {}''\<rparr>"
  let ?st = "\<lparr>config = Some ?cd, \<dots> = ''requestStatus: 2''\<rparr>"
  have a: "getState exampleWorld = Some ?st"
    by (simp add: exampleWorld_def)
  have b: "config ?st = Some ?cd" and c: "table ?cd = Some ?t"
    by simp_all
  from C8_only_resizeMode_changes [OF a b c, of exampleEncode
      "\<lparr>mode = ''Hide'', page = ''runs''\<rparr>"] a
  show ?thesis by simp
qed

text \<open>
  Claim C9. Every call sends exactly one analytics event, whose label names the page and
  the mode, whether or not the model state has a \<open>config.table\<close>. When it has none, the
  model state and the local storage after the call are those before it.
\<close>

theorem C9_one_track_event:
  "trackedEvents (onTableResizeModeChange encode ps w)
     = trackedEvents w @
         [''['' @ page ps @ ''Explorer][Table] Set table view mode to '' @ [CHR 0x22] @ mode ps
          @ [CHR 0x22]]
   \<and> (configTable w = None \<longrightarrow>
        getState (onTableResizeModeChange encode ps w) = getState w
        \<and> localStorage (onTableResizeModeChange encode ps w) = localStorage w)"
  by (auto simp: onTableResizeModeChange_def configTable_def trackEvent_def setItem_def
      setStateConfig_def Let_def split: option.splits)

theorem C9_one_track_event_witness:
  "configTable exampleWorldNoConfig = None
   \<and> onTableResizeModeChange exampleEncode \<lparr>mode = ''Hide'', page = ''runs''\<rparr>
        exampleWorldNoConfig
      = exampleWorldNoConfig
          \<lparr>trackedEvents :=
             [''first'',
              ''[runsExplorer][Table] Set table view mode to '' @ [CHR 0x22] @ ''Hide''
              @ [CHR 0x22]]\<rparr>"
proof -
  have n: "configTable exampleWorldNoConfig = None"
    by (simp add: configTable_def configData_def exampleWorldNoConfig_def)
  from C9_one_track_event [of exampleEncode "\<lparr>mode = ''Hide'', page = ''runs''\<rparr>"
      exampleWorldNoConfig] n
  have "onTableResizeModeChange exampleEncode \<lparr>mode = ''Hide'', page = ''runs''\<rparr>
          exampleWorldNoConfig
        = exampleWorldNoConfig
            \<lparr>trackedEvents :=
               [''first'',
                ''[runsExplorer][Table] Set table view mode to '' @ [CHR 0x22] @ ''Hide''
                @ [CHR 0x22]]\<rparr>"
    by (simp add: exampleWorldNoConfig_def world.equality)
  with n show ?thesis by simp
qed

end
